theory Spec2Isabelle
  imports Main "HOL-Library.Word"
begin

section \<open>PyRasterFrames types: a model of \<open>pyrasterframes/types.py\<close>\<close>

text \<open>
  The module bridges a JVM raster engine and Python. What is written in the module is
  modelled here; what it calls and does not define (numpy, the Py4J gateway, the JVM
  engine) is taken as a parameter of the model.
\<close>

subsection \<open>Errors\<close>

text \<open>
  Every \<open>raise\<close> of the module, and every exception that an expression of the module
  raises implicitly, is a value of \<open>error\<close>; a fallible function returns \<open>error + 'a\<close>
  with \<open>Inl\<close> for the exception.
  \<^item> \<open>Exception msg\<close>: the explicit \<open>raise Exception(msg)\<close> of \<open>to_numpy_dtype\<close>;
  \<^item> \<open>IndexError\<close>: \<open>shape[1]\<close> or \<open>shape[0]\<close> on a shape that is too short;
  \<^item> \<open>ValueError\<close>: \<open>numpy.reshape\<close> to a shape that does not fit the values;
  \<^item> \<open>TypeError\<close>: \<open>np.dtype\<close> on a name it does not understand;
  \<^item> \<open>AttributeError\<close>: \<open>SparkContext._active_spark_context._rf_context\<close> when no
    context is bound;
  \<^item> \<open>RemoteCallError msg\<close>: an exception surfaced by a call across the gateway.
\<close>

datatype error =
    Exception string
  | IndexError
  | ValueError
  | TypeError
  | AttributeError
  | RemoteCallError string

text \<open>
  The two failures that the module itself produces, under the names the specification
  gives them.
\<close>

abbreviation UnsupportedFeature :: error where
  "UnsupportedFeature \<equiv>
     Exception ''Cell types with user-defined NoData values are not yet implemented.''"

abbreviation NoActiveContext :: error where
  "NoActiveContext \<equiv> AttributeError"

subsection \<open>Python string operations\<close>

text \<open>\<open>s.endswith(suffix)\<close>.\<close>

definition endswith :: "string \<Rightarrow> string \<Rightarrow> bool" where
  "endswith s suffix =
     (length suffix \<le> length s \<and> drop (length s - length suffix) s = suffix)"

text \<open>\<open>sub in s\<close>: \<open>sub\<close> occurs in \<open>s\<close> as a contiguous substring.\<close>

fun py_in :: "string \<Rightarrow> string \<Rightarrow> bool" where
  "py_in sub [] = (sub = [])"
| "py_in sub (c # cs) = (take (length sub) (c # cs) = sub \<or> py_in sub cs)"

text \<open>\<open>s[:-3]\<close>: all but the last three characters (the empty string when there are fewer).\<close>

definition drop_last3 :: "string \<Rightarrow> string" where
  "drop_last3 s = take (length s - 3) s"

subsection \<open>numpy, as far as the module uses it\<close>

text \<open>
  numpy is a library the module imports. Its element types are a type parameter \<open>'d\<close>
  and the Python scalars held in a buffer a type parameter \<open>'v\<close>; the three numpy
  operations on them that the module relies on are the fields of \<open>numpy\<close>:
  \<^item> \<open>np_str d\<close> is \<open>str(d)\<close>, the name of an element type;
  \<^item> \<open>np_dtype name\<close> is \<open>np.dtype(name)\<close>, which raises on a name it does not know;
  \<^item> \<open>np_astype d vs\<close> are the values \<open>vs\<close> after \<open>.astype(d)\<close>.
\<close>

record ('d, 'v) numpy =
  np_str :: "'d \<Rightarrow> string"
  np_dtype :: "string \<Rightarrow> error + 'd"
  np_astype :: "'d \<Rightarrow> 'v list \<Rightarrow> 'v list"

subsection \<open>\<open>class GTCellType\<close>\<close>

datatype GTCellType = GTCellType (cell_type_name: string)

definition from_numpy_dtype :: "('d, 'v) numpy \<Rightarrow> 'd \<Rightarrow> GTCellType" where
  "from_numpy_dtype np d = GTCellType (np_str np d)"

function to_numpy_dtype :: "('d, 'v) numpy \<Rightarrow> GTCellType \<Rightarrow> error + 'd" where
  "to_numpy_dtype np self =
     (if endswith (cell_type_name self) ''raw''
      then to_numpy_dtype np (GTCellType (drop_last3 (cell_type_name self)))
      else if py_in ''ud'' (cell_type_name self)
      then Inl UnsupportedFeature
      else np_dtype np (cell_type_name self))"
  by pat_completeness auto
termination
  by (relation "measure (\<lambda>(np, self). length (cell_type_name self))")
     (auto simp: endswith_def drop_last3_def)

declare to_numpy_dtype.simps [simp del]

text \<open>
  \<open>__eq__(self, other)\<close> takes any Python object as \<open>other\<close> and tests
  \<open>type(other) is type(self)\<close> first. \<open>pyobj\<close> lists the kinds of object that the
  claims about equality mention: a cell type, a string, an integer, \<open>None\<close>.
\<close>

datatype pyobj =
    CellTypeObj GTCellType
  | StrObj string
  | IntObj int
  | NoneObj

datatype pytype = GTCellType_class | str_class | int_class | NoneType_class

fun type_of :: "pyobj \<Rightarrow> pytype" where
  "type_of (CellTypeObj _) = GTCellType_class"
| "type_of (StrObj _) = str_class"
| "type_of (IntObj _) = int_class"
| "type_of NoneObj = NoneType_class"

text \<open>The attribute \<open>other.cell_type_name\<close>, which only a cell type has.\<close>

fun attr_cell_type_name :: "pyobj \<Rightarrow> string option" where
  "attr_cell_type_name (CellTypeObj other) = Some (cell_type_name other)"
| "attr_cell_type_name _ = None"

definition GTCellType_eq :: "GTCellType \<Rightarrow> pyobj \<Rightarrow> bool" where
  "GTCellType_eq self other =
     (if type_of other = type_of (CellTypeObj self)
      then Some (cell_type_name self) = attr_cell_type_name other
      else False)"

definition GTCellType_str :: "GTCellType \<Rightarrow> string" where
  "GTCellType_str self = cell_type_name self"

subsection \<open>Buffers: \<open>numpy.ndarray\<close>\<close>

text \<open>
  A buffer is its \<open>shape\<close>, its element type and its elements in row-major (C) order,
  which is the order in which \<open>flatten()\<close> lists them; the elements are held as the
  Python scalars that \<open>tolist()\<close> returns.
\<close>

record ('d, 'v) ndarray =
  shape :: "nat list"
  dtype :: 'd
  data :: "'v list"

text \<open>\<open>cells.flatten().tolist()\<close>.\<close>

definition flatten_tolist :: "('d, 'v) ndarray \<Rightarrow> 'v list" where
  "flatten_tolist a = data a"

text \<open>
  \<open>numpy.reshape(values, (rows, cols), order='C')\<close> on a flat list: the shape of the
  result, or \<open>ValueError\<close>. One of the two extents may be \<open>-1\<close>, and numpy then
  infers it from the number of values; any other negative extent is refused.
\<close>

definition np_reshape :: "'v list \<Rightarrow> int \<Rightarrow> int \<Rightarrow> error + nat \<times> nat" where
  "np_reshape vs rows cols =
     (let n = int (length vs) in
      if rows = - 1 \<and> cols = - 1 then Inl ValueError
      else if rows = - 1 then
        (if 0 < cols \<and> n mod cols = 0 then Inr (nat (n div cols), nat cols) else Inl ValueError)
      else if cols = - 1 then
        (if 0 < rows \<and> n mod rows = 0 then Inr (nat rows, nat (n div rows)) else Inl ValueError)
      else if rows < 0 \<or> cols < 0 then Inl ValueError
      else if rows * cols = n then Inr (nat rows, nat cols)
      else Inl ValueError)"

subsection \<open>Python values, rows and schemas\<close>

text \<open>
  The value that \<open>TileUDT.serialize\<close> returns is a nested Python list, and the datum
  that \<open>TileUDT.deserialize\<close> reads is an object with attributes. Both are values of
  \<open>pyval\<close>: \<open>None\<close>, an integer, a string, a byte buffer (a list of bytes), a list,
  or a \<open>Row\<close>, which holds named fields in order.
\<close>

type_synonym bytes = "8 word list"

datatype pyval =
    PyNone
  | PyInt int
  | PyStr string
  | PyBytes bytes
  | PyList "pyval list"
  | PyRow "(string \<times> pyval) list"

text \<open>
  \<open>obj.name\<close> for the field names that the module reads: a \<open>Row\<close> gives the first
  field of that name and raises \<open>AttributeError\<close> when it has none; no other value has
  such an attribute.
\<close>

fun getattr :: "pyval \<Rightarrow> string \<Rightarrow> error + pyval" where
  "getattr (PyRow named) name =
     (case map_of named name of None \<Rightarrow> Inl AttributeError | Some v \<Rightarrow> Inr v)"
| "getattr _ name = Inl AttributeError"

text \<open>\<open>obj.a.b.c\<close>: one attribute after the other.\<close>

fun getattr_path :: "pyval \<Rightarrow> string list \<Rightarrow> error + pyval" where
  "getattr_path v [] = Inr v"
| "getattr_path v (name # names) =
     (case getattr v name of Inl e \<Rightarrow> Inl e | Inr v' \<Rightarrow> getattr_path v' names)"

text \<open>The types of \<open>pyspark.sql.types\<close> that the two \<open>sqlType\<close> methods use.\<close>

datatype sql_type =
    StringType
  | ShortType
  | IntegerType
  | DoubleType
  | BinaryType
  | RasterSourceUDT_type
  | StructType "struct_field list"
and struct_field =
    StructField string sql_type bool

text \<open>\<open>RasterSourceUDT.sqlType\<close> and \<open>TileUDT.sqlType\<close>, as the module writes them.\<close>

definition RasterSourceUDT_sqlType :: sql_type where
  "RasterSourceUDT_sqlType = StructType [StructField ''raster_source_kryo'' BinaryType False]"

definition TileUDT_sqlType :: sql_type where
  "TileUDT_sqlType =
     StructType [
       StructField ''cell_context'' (StructType [
         StructField ''cell_type'' (StructType [
           StructField ''cellTypeName'' StringType False
         ]) False,
         StructField ''dimensions'' (StructType [
           StructField ''cols'' ShortType False,
           StructField ''rows'' ShortType False
         ]) False
       ]) False,
       StructField ''cell_data'' (StructType [
         StructField ''cells'' BinaryType True,
         StructField ''ref'' (StructType [
           StructField ''source'' RasterSourceUDT_type False,
           StructField ''bandIndex'' IntegerType False,
           StructField ''subextent'' (StructType [
             StructField ''xmin'' DoubleType False,
             StructField ''ymin'' DoubleType False,
             StructField ''xmax'' DoubleType False,
             StructField ''ymax'' DoubleType False
           ]) True
         ]) True
       ]) False
     ]"

text \<open>
  The same layout under the field names that \<open>deserialize\<close> reads: it reads
  \<open>cell_context.cellType\<close>, where \<open>sqlType\<close> names the field \<open>cell_type\<close>.
\<close>

definition schema_as_read :: sql_type where
  "schema_as_read =
     StructType [
       StructField ''cell_context'' (StructType [
         StructField ''cellType'' (StructType [
           StructField ''cellTypeName'' StringType False
         ]) False,
         StructField ''dimensions'' (StructType [
           StructField ''cols'' ShortType False,
           StructField ''rows'' ShortType False
         ]) False
       ]) False,
       StructField ''cell_data'' (StructType [
         StructField ''cells'' BinaryType True,
         StructField ''ref'' (StructType [
           StructField ''source'' RasterSourceUDT_type False,
           StructField ''bandIndex'' IntegerType False,
           StructField ''subextent'' (StructType [
             StructField ''xmin'' DoubleType False,
             StructField ''ymin'' DoubleType False,
             StructField ''xmax'' DoubleType False,
             StructField ''ymax'' DoubleType False
           ]) True
         ]) True
       ]) False
     ]"

text \<open>
  Reading a positional value by a schema, as pyspark does when it turns a nested list
  into a \<open>Row\<close>: the fields of a struct, in the order of the schema, get the schema's
  names. A value that is not a struct stays as it is (so does the \<open>source\<close> of a
  \<open>ref\<close>, which \<open>serialize\<close> never fills).
\<close>

fun to_row :: "sql_type \<Rightarrow> pyval \<Rightarrow> pyval"
  and to_rows :: "struct_field list \<Rightarrow> pyval list \<Rightarrow> (string \<times> pyval) list" where
  "to_row (StructType fs) (PyList vs) = PyRow (to_rows fs vs)"
| "to_row t v = v"
| "to_rows (StructField name t nullable # fs) (v # vs) = (name, to_row t v) # to_rows fs vs"
| "to_rows fs vs = []"

subsection \<open>\<open>class Tile\<close>\<close>

record ('d, 'v) Tile =
  cells :: "('d, 'v) ndarray"
  cell_type :: GTCellType

text \<open>\<open>Tile.__init__(self, cells)\<close>.\<close>

definition Tile_init :: "('d, 'v) numpy \<Rightarrow> ('d, 'v) ndarray \<Rightarrow> ('d, 'v) Tile" where
  "Tile_init np c = \<lparr>cells = c, cell_type = from_numpy_dtype np (dtype c)\<rparr>"

text \<open>
  \<open>Tile.dimensions\<close> returns the two-element list \<open>[shape[1], shape[0]]\<close>, here a
  pair; indexing a shape with fewer than two extents raises \<open>IndexError\<close>.
\<close>

definition Tile_dimensions :: "('d, 'v) Tile \<Rightarrow> error + nat \<times> nat" where
  "Tile_dimensions self =
     (case shape (cells self) of
        r # c # _ \<Rightarrow> Inr (c, r)
      | _ \<Rightarrow> Inl IndexError)"

subsection \<open>The gateway\<close>

text \<open>
  A call across the gateway runs in the remote engine: it takes the engine's state
  \<open>'s\<close> and returns the result, or the exception it raises, with the state the
  engine is left in. \<open>RFContext.call\<close> is defined in the module \<open>context\<close>, which is
  not among the sources; its two uses in \<open>TileUDT\<close> are the two fields of \<open>gateway\<close>,
  each with the arguments that \<open>TileUDT\<close> passes. \<open>deserialize\<close> passes on what it
  read from the datum, whatever it is.
\<close>

type_synonym ('a, 's) remote = "'s \<Rightarrow> (error + 'a) \<times> 's"

record ('v, 's) gateway =
  list_to_bytearray :: "'v list \<Rightarrow> int \<Rightarrow> int \<Rightarrow> (bytes, 's) remote"
  bytearray_to_list :: "pyval \<Rightarrow> pyval \<Rightarrow> pyval \<Rightarrow> pyval \<Rightarrow> ('v list, 's) remote"

subsection \<open>\<open>class TileUDT\<close>\<close>

text \<open>\<open>bytearray(b)\<close> on the bytes that the gateway returns: a copy.\<close>

definition bytearray :: "bytes \<Rightarrow> bytes" where
  "bytearray b = b"

text \<open>
  \<open>serialize\<close> evaluates \<open>tile.dimensions()\<close> before it calls the gateway, so a buffer
  with fewer than two extents fails before any remote call. It returns the nested list
  \<open>[[[name], [cols, rows]], [cells, None]]\<close>.
\<close>

definition TileUDT_serialize ::
  "('v, 's) gateway \<Rightarrow> ('d, 'v) Tile \<Rightarrow> (pyval, 's) remote" where
  "TileUDT_serialize gw tile s =
     (case Tile_dimensions tile of
        Inl e \<Rightarrow> (Inl e, s)
      | Inr (c, r) \<Rightarrow>
          (case list_to_bytearray gw (flatten_tolist (cells tile)) (int c) (int r) s of
             (Inl e, s') \<Rightarrow> (Inl e, s')
           | (Inr b, s') \<Rightarrow>
               (Inr (PyList [
                       PyList [
                         PyList [PyStr (cell_type_name (cell_type tile))],
                         PyList [PyInt (int c), PyInt (int r)]
                       ],
                       PyList [
                         PyBytes (bytearray b),
                         PyNone
                       ]
                     ]),
                s')))"

text \<open>
  In \<open>deserialize\<close>, \<open>numpy.reshape\<close> needs two integers for the shape and raises
  \<open>TypeError\<close> on anything else.
\<close>

fun np_reshape_py :: "'v list \<Rightarrow> pyval \<Rightarrow> pyval \<Rightarrow> error + nat \<times> nat" where
  "np_reshape_py vs (PyInt rows) (PyInt cols) = np_reshape vs rows cols"
| "np_reshape_py vs rows cols = Inl TypeError"

text \<open>
  \<open>GTCellType(name).to_numpy_dtype()\<close> for the \<open>name\<close> read from the datum. A string
  is resolved as a cell type. Any other value fails at \<open>name.endswith("raw")\<close>: a byte
  buffer with \<open>TypeError\<close> (its \<open>endswith\<close> takes no string), the rest with
  \<open>AttributeError\<close>.
\<close>

fun to_numpy_dtype_py :: "('d, 'v) numpy \<Rightarrow> pyval \<Rightarrow> error + 'd" where
  "to_numpy_dtype_py np (PyStr name) = to_numpy_dtype np (GTCellType name)"
| "to_numpy_dtype_py np (PyBytes b) = Inl TypeError"
| "to_numpy_dtype_py np v = Inl AttributeError"

text \<open>
  \<open>deserialize\<close> reads four attributes of the datum, calls the gateway with them,
  reshapes the returned values, resolves the element type, casts, and wraps the buffer
  in a \<open>Tile\<close>.
\<close>

definition TileUDT_deserialize ::
  "('d, 'v) numpy \<Rightarrow> ('v, 's) gateway \<Rightarrow> pyval \<Rightarrow> (('d, 'v) Tile, 's) remote" where
  "TileUDT_deserialize np gw datum s =
     (case getattr_path datum [''cell_context'', ''cellType'', ''cellTypeName''] of
        Inl e \<Rightarrow> (Inl e, s)
      | Inr name \<Rightarrow>
     (case getattr_path datum [''cell_context'', ''dimensions'', ''cols''] of
        Inl e \<Rightarrow> (Inl e, s)
      | Inr cols \<Rightarrow>
     (case getattr_path datum [''cell_context'', ''dimensions'', ''rows''] of
        Inl e \<Rightarrow> (Inl e, s)
      | Inr rows \<Rightarrow>
     (case getattr_path datum [''cell_data'', ''cells''] of
        Inl e \<Rightarrow> (Inl e, s)
      | Inr cell_data_bytes \<Rightarrow>
     (case bytearray_to_list gw cell_data_bytes name cols rows s of
        (Inl e, s') \<Rightarrow> (Inl e, s')
      | (Inr cell_value_list, s') \<Rightarrow>
          (case np_reshape_py cell_value_list rows cols of
             Inl e \<Rightarrow> (Inl e, s')
           | Inr (r, c) \<Rightarrow>
               (case to_numpy_dtype_py np name of
                  Inl e \<Rightarrow> (Inl e, s')
                | Inr dt \<Rightarrow>
                    (Inr (Tile_init np
                           \<lparr>shape = [r, c], dtype = dt,
                            data = np_astype np dt cell_value_list\<rparr>),
                     s'))))))))"

subsection \<open>\<open>class RasterSourceUDT\<close>\<close>

text \<open>
  The datum of \<open>deserialize\<close> has the layout of \<open>RasterSourceUDT.sqlType\<close>: one
  non-null binary field. \<open>bytes(datum[0])\<close> copies it, and the method ends without a
  \<open>return\<close>, so it returns \<open>None\<close>.
\<close>

record raster_source_row =
  raster_source_kryo :: bytes

definition py_bytes :: "bytes \<Rightarrow> bytes" where
  "py_bytes b = b"

definition RasterSourceUDT_serialize :: "'obj \<Rightarrow> raster_source_row option" where
  "RasterSourceUDT_serialize obj = None"

definition RasterSourceUDT_deserialize :: "raster_source_row \<Rightarrow> 'obj option" where
  "RasterSourceUDT_deserialize datum = (let b = py_bytes (raster_source_kryo datum) in None)"

subsection \<open>\<open>class RasterFrame\<close>\<close>

text \<open>
  A reference to a JVM object is an opaque handle. \<open>jrfctx\<close> is the JVM object
  \<open>_jrfctx\<close> with the methods that \<open>RasterFrame\<close> calls on it; each is a remote call.
  \<open>temporalKeyColumn\<close> returns \<open>None\<close> for the JVM's \<open>null\<close>.
\<close>

type_synonym jobj = nat

datatype Column = Column jobj

record 's jrfctx =
  jvm_tileColumns :: "jobj \<Rightarrow> (jobj list, 's) remote"
  jvm_spatialKeyColumn :: "jobj \<Rightarrow> (jobj, 's) remote"
  jvm_temporalKeyColumn :: "jobj \<Rightarrow> (jobj option, 's) remote"
  jvm_tileLayerMetadata :: "jobj \<Rightarrow> (string, 's) remote"
  jvm_spatialJoin :: "jobj \<Rightarrow> jobj \<Rightarrow> (jobj, 's) remote"
  jvm_toIntRaster :: "jobj \<Rightarrow> string \<Rightarrow> int \<Rightarrow> int \<Rightarrow> (jobj, 's) remote"
  jvm_toDoubleRaster :: "jobj \<Rightarrow> string \<Rightarrow> int \<Rightarrow> int \<Rightarrow> (jobj, 's) remote"
  jvm_withBounds :: "jobj \<Rightarrow> (jobj, 's) remote"
  jvm_withCenter :: "jobj \<Rightarrow> (jobj, 's) remote"
  jvm_withCenterLatLng :: "jobj \<Rightarrow> (jobj, 's) remote"
  jvm_withSpatialIndex :: "jobj \<Rightarrow> (jobj, 's) remote"

text \<open>
  The objects that \<open>RasterFrame\<close> reaches through attributes: a session, of which only
  \<open>spark_session.rasterframes._jrfctx\<close> is read; the RasterFrames context \<open>ctx\<close> with
  \<open>ctx._jrfctx\<close> and \<open>ctx._spark_session\<close>; the Spark context, whose \<open>_rf_context\<close>
  attribute may not be set; and the process, whose
  \<open>SparkContext._active_spark_context\<close> is \<open>None\<close> when no context is active.
\<close>

record 's SparkSession =
  rasterframes_jrfctx :: "'s jrfctx"

record 's RFContext =
  ctx_jrfctx :: "'s jrfctx"
  ctx_spark_session :: "'s SparkSession"

record 's SparkContext =
  rf_context :: "'s RFContext option"

record 's process =
  active_spark_context :: "'s SparkContext option"

record 's RasterFrame =
  jdf :: jobj
  jrfctx :: "'s jrfctx"

text \<open>\<open>RasterFrame.__init__(self, jdf, spark_session)\<close>.\<close>

definition RasterFrame_init :: "jobj \<Rightarrow> 's SparkSession \<Rightarrow> 's RasterFrame" where
  "RasterFrame_init df spark_session = \<lparr>jdf = df, jrfctx = rasterframes_jrfctx spark_session\<rparr>"

text \<open>
  The expression \<open>SparkContext._active_spark_context._rf_context\<close>: reading the
  attribute of \<open>None\<close>, or an attribute that was never set, raises \<open>AttributeError\<close>.
\<close>

definition active_rf_context :: "'s process \<Rightarrow> error + 's RFContext" where
  "active_rf_context p =
     (case active_spark_context p of
        None \<Rightarrow> Inl AttributeError
      | Some sc \<Rightarrow>
          (case rf_context sc of
             None \<Rightarrow> Inl AttributeError
           | Some ctx \<Rightarrow> Inr ctx))"

text \<open>
  Every method runs in a process \<open>p\<close>, whose state it may read, on an engine in state
  \<open>s\<close>. \<open>and_then\<close> continues with the result of a remote call, or passes on its
  exception.
\<close>

definition and_then :: "(error + 'a) \<times> 's \<Rightarrow> ('a \<Rightarrow> error + 'b) \<Rightarrow> (error + 'b) \<times> 's" where
  "and_then r f = (case r of (Inl e, s') \<Rightarrow> (Inl e, s') | (Inr x, s') \<Rightarrow> (f x, s'))"

definition tileColumns :: "'s process \<Rightarrow> 's RasterFrame \<Rightarrow> (Column list, 's) remote" where
  "tileColumns p self s =
     and_then (jvm_tileColumns (jrfctx self) (jdf self) s) (\<lambda>cols. Inr (map Column cols))"

definition spatialKeyColumn :: "'s process \<Rightarrow> 's RasterFrame \<Rightarrow> (Column, 's) remote" where
  "spatialKeyColumn p self s =
     and_then (jvm_spatialKeyColumn (jrfctx self) (jdf self) s) (\<lambda>col. Inr (Column col))"

text \<open>\<open>col and Column(col)\<close> is \<open>col\<close> itself when \<open>col\<close> is \<open>None\<close>.\<close>

definition temporalKeyColumn :: "'s process \<Rightarrow> 's RasterFrame \<Rightarrow> (Column option, 's) remote" where
  "temporalKeyColumn p self s =
     and_then (jvm_temporalKeyColumn (jrfctx self) (jdf self) s)
       (\<lambda>col. Inr (case col of None \<Rightarrow> None | Some c \<Rightarrow> Some (Column c)))"

text \<open>\<open>json.loads\<close> is the parameter \<open>loads\<close>.\<close>

definition tileLayerMetadata ::
  "(string \<Rightarrow> error + 'j) \<Rightarrow> 's process \<Rightarrow> 's RasterFrame \<Rightarrow> ('j, 's) remote" where
  "tileLayerMetadata loads p self s =
     and_then (jvm_tileLayerMetadata (jrfctx self) (jdf self) s) loads"

definition spatialJoin ::
  "'s process \<Rightarrow> 's RasterFrame \<Rightarrow> 's RasterFrame \<Rightarrow> ('s RasterFrame, 's) remote" where
  "spatialJoin p self other_df s =
     (case active_rf_context p of
        Inl e \<Rightarrow> (Inl e, s)
      | Inr ctx \<Rightarrow>
          and_then (jvm_spatialJoin (ctx_jrfctx ctx) (jdf self) (jdf other_df) s)
            (\<lambda>df. Inr (RasterFrame_init df (ctx_spark_session ctx))))"

definition toIntRaster ::
  "'s process \<Rightarrow> 's RasterFrame \<Rightarrow> string \<Rightarrow> int \<Rightarrow> int \<Rightarrow> (jobj, 's) remote" where
  "toIntRaster p self colname ncols nrows s =
     and_then (jvm_toIntRaster (jrfctx self) (jdf self) colname ncols nrows s) Inr"

definition toDoubleRaster ::
  "'s process \<Rightarrow> 's RasterFrame \<Rightarrow> string \<Rightarrow> int \<Rightarrow> int \<Rightarrow> (jobj, 's) remote" where
  "toDoubleRaster p self colname ncols nrows s =
     and_then (jvm_toDoubleRaster (jrfctx self) (jdf self) colname ncols nrows s) Inr"

definition withBounds :: "'s process \<Rightarrow> 's RasterFrame \<Rightarrow> ('s RasterFrame, 's) remote" where
  "withBounds p self s =
     (case active_rf_context p of
        Inl e \<Rightarrow> (Inl e, s)
      | Inr ctx \<Rightarrow>
          and_then (jvm_withBounds (ctx_jrfctx ctx) (jdf self) s)
            (\<lambda>df. Inr (RasterFrame_init df (ctx_spark_session ctx))))"

definition withCenter :: "'s process \<Rightarrow> 's RasterFrame \<Rightarrow> ('s RasterFrame, 's) remote" where
  "withCenter p self s =
     (case active_rf_context p of
        Inl e \<Rightarrow> (Inl e, s)
      | Inr ctx \<Rightarrow>
          and_then (jvm_withCenter (ctx_jrfctx ctx) (jdf self) s)
            (\<lambda>df. Inr (RasterFrame_init df (ctx_spark_session ctx))))"

definition withCenterLatLng :: "'s process \<Rightarrow> 's RasterFrame \<Rightarrow> ('s RasterFrame, 's) remote" where
  "withCenterLatLng p self s =
     (case active_rf_context p of
        Inl e \<Rightarrow> (Inl e, s)
      | Inr ctx \<Rightarrow>
          and_then (jvm_withCenterLatLng (ctx_jrfctx ctx) (jdf self) s)
            (\<lambda>df. Inr (RasterFrame_init df (ctx_spark_session ctx))))"

definition withSpatialIndex :: "'s process \<Rightarrow> 's RasterFrame \<Rightarrow> ('s RasterFrame, 's) remote" where
  "withSpatialIndex p self s =
     (case active_rf_context p of
        Inl e \<Rightarrow> (Inl e, s)
      | Inr ctx \<Rightarrow>
          and_then (jvm_withSpatialIndex (ctx_jrfctx ctx) (jdf self) s)
            (\<lambda>df. Inr (RasterFrame_init df (ctx_spark_session ctx))))"


subsection \<open>What the round trip assumes of numpy and of the engine\<close>

text \<open>
  A buffer \<open>c\<close> has a native element type for \<open>np\<close> when numpy reads the name of the
  element type back as that type, the name neither ends in \<open>raw\<close> nor contains \<open>ud\<close>,
  and casting the values of \<open>c\<close> to the element type they already have changes nothing.
\<close>

definition native_buffer :: "('d, 'v) numpy \<Rightarrow> ('d, 'v) ndarray \<Rightarrow> bool" where
  "native_buffer np c =
     (np_dtype np (np_str np (dtype c)) = Inr (dtype c) \<and>
      \<not> endswith (np_str np (dtype c)) ''raw'' \<and>
      \<not> py_in ''ud'' (np_str np (dtype c)) \<and>
      np_astype np (dtype c) (data c) = data c)"

text \<open>
  The two remote conversions are inverse on the values \<open>vs\<close>: \<open>_list_to_bytearray\<close>,
  called with the engine in state \<open>s\<close>, returns a byte buffer, and \<open>_bytearray_to_list\<close>,
  called on that buffer with the engine in state \<open>s2\<close>, returns \<open>vs\<close>.
\<close>

definition inverse_on ::
  "('v, 's) gateway \<Rightarrow> 'v list \<Rightarrow> string \<Rightarrow> int \<Rightarrow> int \<Rightarrow> 's \<Rightarrow> 's \<Rightarrow> bool" where
  "inverse_on gw vs name c r s s2 =
     (case fst (list_to_bytearray gw vs c r s) of
        Inl e \<Rightarrow> False
      | Inr b \<Rightarrow>
          fst (bytearray_to_list gw (PyBytes (bytearray b)) (PyStr name) (PyInt c) (PyInt r) s2)
            = Inr vs)"

subsection \<open>Concrete parameters\<close>

text \<open>
  The model is evaluated on concrete tiles with the following parameters.
  \<open>int_numpy\<close> is numpy restricted to its fixed-width integer element types: their
  names, \<open>np.dtype\<close> on those names (numpy accepts other spellings too, which this
  table leaves out), and \<open>astype\<close>, which keeps the low bits of a value.
\<close>

datatype int_dtype = Int8 | UInt8 | Int16 | UInt16 | Int32 | UInt32 | Int64 | UInt64

fun int_dtype_bits :: "int_dtype \<Rightarrow> nat" where
  "int_dtype_bits Int8 = 8"
| "int_dtype_bits UInt8 = 8"
| "int_dtype_bits Int16 = 16"
| "int_dtype_bits UInt16 = 16"
| "int_dtype_bits Int32 = 32"
| "int_dtype_bits UInt32 = 32"
| "int_dtype_bits Int64 = 64"
| "int_dtype_bits UInt64 = 64"

fun int_dtype_signed :: "int_dtype \<Rightarrow> bool" where
  "int_dtype_signed Int8 = True"
| "int_dtype_signed Int16 = True"
| "int_dtype_signed Int32 = True"
| "int_dtype_signed Int64 = True"
| "int_dtype_signed _ = False"

fun int_dtype_str :: "int_dtype \<Rightarrow> string" where
  "int_dtype_str Int8 = ''int8''"
| "int_dtype_str UInt8 = ''uint8''"
| "int_dtype_str Int16 = ''int16''"
| "int_dtype_str UInt16 = ''uint16''"
| "int_dtype_str Int32 = ''int32''"
| "int_dtype_str UInt32 = ''uint32''"
| "int_dtype_str Int64 = ''int64''"
| "int_dtype_str UInt64 = ''uint64''"

definition int_dtypes :: "int_dtype list" where
  "int_dtypes = [Int8, UInt8, Int16, UInt16, Int32, UInt32, Int64, UInt64]"

definition int_np_dtype :: "string \<Rightarrow> error + int_dtype" where
  "int_np_dtype name =
     (case map_of (map (\<lambda>d. (int_dtype_str d, d)) int_dtypes) name of
        None \<Rightarrow> Inl TypeError
      | Some d \<Rightarrow> Inr d)"

definition int_cast :: "int_dtype \<Rightarrow> int \<Rightarrow> int" where
  "int_cast d v =
     (let m = 2 ^ int_dtype_bits d in
      if int_dtype_signed d then (v + m div 2) mod m - m div 2 else v mod m)"

definition int_numpy :: "(int_dtype, int) numpy" where
  "int_numpy = \<lparr>np_str = int_dtype_str, np_dtype = int_np_dtype, np_astype = (\<lambda>d. map (int_cast d))\<rparr>"

text \<open>The values of a buffer of integer element type \<open>d\<close> lie in the range of \<open>d\<close>.\<close>

definition in_range :: "int_dtype \<Rightarrow> int \<Rightarrow> bool" where
  "in_range d v =
     (let m = 2 ^ int_dtype_bits d in
      if int_dtype_signed d then - (m div 2) \<le> v \<and> v < m div 2 else 0 \<le> v \<and> v < m)"

text \<open>
  \<open>log_gateway\<close> is an engine whose state is the list of the remote calls made so far.
  It encodes every value as two bytes, high byte first, and decodes two bytes as a
  signed 16-bit value.
\<close>

definition encode16 :: "int \<Rightarrow> bytes" where
  "encode16 v = [word_of_int (v div 256), word_of_int v]"

fun decode16 :: "bytes \<Rightarrow> int list" where
  "decode16 (hi # lo # bs) =
     (let u = uint hi * 256 + uint lo in if 32768 \<le> u then u - 65536 else u) # decode16 bs"
| "decode16 _ = []"

definition log_gateway :: "(int, string list) gateway" where
  "log_gateway =
     \<lparr>list_to_bytearray =
        (\<lambda>vs c r log. (Inr (concat (map encode16 vs)), log @ [''_list_to_bytearray''])),
      bytearray_to_list =
        (\<lambda>b name c r log.
           (case b of
              PyBytes bs \<Rightarrow> Inr (decode16 bs)
            | _ \<Rightarrow> Inl (RemoteCallError ''not a byte buffer''),
            log @ [''_bytearray_to_list'']))\<rparr>"

text \<open>\<open>down_gateway\<close> is an engine on which every call fails.\<close>

definition down_gateway :: "(int, string list) gateway" where
  "down_gateway =
     \<lparr>list_to_bytearray =
        (\<lambda>vs c r log. (Inl (RemoteCallError ''connection lost''), log @ [''_list_to_bytearray''])),
      bytearray_to_list =
        (\<lambda>b name c r log.
           (Inl (RemoteCallError ''connection lost''), log @ [''_bytearray_to_list'']))\<rparr>"

text \<open>The 2 by 3 buffer \<open>[[1, 2, 3], [4, 5, 6]]\<close> of 16-bit integers, and a 3 by 5 buffer.\<close>

definition buffer_2x3 :: "(int_dtype, int) ndarray" where
  "buffer_2x3 = \<lparr>shape = [2, 3], dtype = Int16, data = [1, 2, 3, 4, 5, 6]\<rparr>"

definition buffer_3x5 :: "(int_dtype, int) ndarray" where
  "buffer_3x5 = \<lparr>shape = [3, 5], dtype = UInt8, data = replicate 15 0\<rparr>"

text \<open>
  What \<open>serialize\<close> returns for the 2 by 3 buffer under \<open>log_gateway\<close>, and the same
  value as a \<open>Row\<close> under the field names that \<open>deserialize\<close> reads.
\<close>

definition list_2x3 :: pyval where
  "list_2x3 =
     PyList [
       PyList [PyList [PyStr ''int16''], PyList [PyInt 3, PyInt 2]],
       PyList [PyBytes [0, 1, 0, 2, 0, 3, 0, 4, 0, 5, 0, 6], PyNone]
     ]"

definition row_2x3 :: pyval where
  "row_2x3 = to_row schema_as_read list_2x3"

text \<open>
  \<open>log_jrfctx\<close> is a JVM context on the same kind of engine: every method logs its
  name and returns a handle; a frame has a temporal key column when its handle is even.
\<close>

definition log_jrfctx :: "string list jrfctx" where
  "log_jrfctx =
     \<lparr>jvm_tileColumns = (\<lambda>df log. (Inr [df + 1, df + 2], log @ [''tileColumns''])),
      jvm_spatialKeyColumn = (\<lambda>df log. (Inr (df + 3), log @ [''spatialKeyColumn''])),
      jvm_temporalKeyColumn =
        (\<lambda>df log. (Inr (if even df then Some (df + 4) else None), log @ [''temporalKeyColumn''])),
      jvm_tileLayerMetadata = (\<lambda>df log. (Inr ''{}'', log @ [''tileLayerMetadata''])),
      jvm_spatialJoin = (\<lambda>df other log. (Inr (df + other), log @ [''spatialJoin''])),
      jvm_toIntRaster = (\<lambda>df colname c r log. (Inr (df + 5), log @ [''toIntRaster''])),
      jvm_toDoubleRaster = (\<lambda>df colname c r log. (Inr (df + 6), log @ [''toDoubleRaster''])),
      jvm_withBounds = (\<lambda>df log. (Inr (df + 7), log @ [''withBounds''])),
      jvm_withCenter = (\<lambda>df log. (Inr (df + 8), log @ [''withCenter''])),
      jvm_withCenterLatLng = (\<lambda>df log. (Inr (df + 9), log @ [''withCenterLatLng''])),
      jvm_withSpatialIndex = (\<lambda>df log. (Inr (df + 10), log @ [''withSpatialIndex'']))\<rparr>"

text \<open>A process with no active Spark context, and frames with handles 1 and 2.\<close>

definition no_context :: "string list process" where
  "no_context = \<lparr>active_spark_context = None\<rparr>"

definition frame1 :: "string list RasterFrame" where
  "frame1 = \<lparr>jdf = 1, jrfctx = log_jrfctx\<rparr>"

definition frame2 :: "string list RasterFrame" where
  "frame2 = \<lparr>jdf = 2, jrfctx = log_jrfctx\<rparr>"

section \<open>Properties\<close>

subsection \<open>String operations\<close>

lemma endswith_iff: "endswith s suffix \<longleftrightarrow> (\<exists>p. s = p @ suffix)"
proof
  assume "endswith s suffix"
  then have "s = take (length s - length suffix) s @ suffix"
    by (metis append_take_drop_id endswith_def)
  then show "\<exists>p. s = p @ suffix" ..
next
  assume "\<exists>p. s = p @ suffix"
  then show "endswith s suffix"
    by (auto simp: endswith_def)
qed

lemma py_in_iff: "py_in sub s \<longleftrightarrow> (\<exists>p q. s = p @ sub @ q)"
proof (induction s)
  case Nil
  then show ?case by auto
next
  case (Cons c cs)
  show ?case
  proof
    assume "py_in sub (c # cs)"
    then consider "take (length sub) (c # cs) = sub" | "py_in sub cs"
      by auto
    then show "\<exists>p q. c # cs = p @ sub @ q"
    proof cases
      case 1
      then have "c # cs = [] @ sub @ drop (length sub) (c # cs)"
        by (metis append_Nil append_take_drop_id)
      then show ?thesis by blast
    next
      case 2
      then obtain p q where "cs = p @ sub @ q"
        using Cons.IH by blast
      then have "c # cs = (c # p) @ sub @ q" by simp
      then show ?thesis by blast
    qed
  next
    assume "\<exists>p q. c # cs = p @ sub @ q"
    then obtain p q where pq: "c # cs = p @ sub @ q" by blast
    show "py_in sub (c # cs)"
    proof (cases p)
      case Nil
      then have "take (length sub) (c # cs) = sub"
        using pq by simp
      then show ?thesis by simp
    next
      case (Cons c' p')
      then have "cs = p' @ sub @ q"
        using pq by simp
      then have "py_in sub cs"
        using Cons.IH by blast
      then show ?thesis by simp
    qed
  qed
qed

lemma drop_last3_raw: "drop_last3 (p @ ''raw'') = p"
  by (simp add: drop_last3_def)

lemma append_same_length_suffix:
  "xs @ us = ys @ vs \<Longrightarrow> length us = length vs \<Longrightarrow> xs = ys \<and> us = vs"
  by simp

text \<open>
  An occurrence of \<open>ud\<close> cannot overlap a final \<open>raw\<close>, so it lies in what is left
  when the suffix is removed.
\<close>

lemma ud_before_raw:
  assumes "p @ ''ud'' @ q = t @ ''raw''"
  shows "\<exists>q'. t = p @ ''ud'' @ q'"
proof (cases q rule: rev_cases)
  case Nil
  with assms have "(p @ ''u'') @ ''d'' = (t @ ''ra'') @ ''w''" by simp
  then have "''d'' = ''w''"
    by (rule append_same_length_suffix [THEN conjunct2]) simp
  then show ?thesis by simp
next
  case (snoc q1 z)
  note q = this
  show ?thesis
  proof (cases q1 rule: rev_cases)
    case Nil
    with assms q have "(p @ ''u'') @ [CHR ''d'', z] = (t @ ''r'') @ ''aw''" by simp
    then have "[CHR ''d'', z] = ''aw''"
      by (rule append_same_length_suffix [THEN conjunct2]) simp
    then show ?thesis by simp
  next
    case (snoc q2 y)
    note q1 = this
    show ?thesis
    proof (cases q2 rule: rev_cases)
      case Nil
      with assms q q1 have "(p @ ''u'') @ [CHR ''d'', y, z] = t @ ''raw''" by simp
      then have "[CHR ''d'', y, z] = ''raw''"
        by (rule append_same_length_suffix [THEN conjunct2]) simp
      then show ?thesis by simp
    next
      case (snoc q3 x)
      with assms q q1 have "(p @ ''ud'' @ q3) @ [x, y, z] = t @ ''raw''" by simp
      then have "p @ ''ud'' @ q3 = t"
        by (rule append_same_length_suffix [THEN conjunct1]) simp
      then show ?thesis by blast
    qed
  qed
qed

lemma ud_survives_drop_last3:
  assumes "endswith s ''raw''" and "py_in ''ud'' s"
  shows "py_in ''ud'' (drop_last3 s)"
proof -
  obtain t where t: "s = t @ ''raw''"
    using assms(1) by (auto simp: endswith_iff)
  obtain p q where "s = p @ ''ud'' @ q"
    using assms(2) by (auto simp: py_in_iff)
  with t have "p @ ''ud'' @ q = t @ ''raw''" by simp
  then obtain q' where "t = p @ ''ud'' @ q'"
    using ud_before_raw by blast
  then have "py_in ''ud'' t"
    by (auto simp: py_in_iff)
  then show ?thesis
    using t by (simp add: drop_last3_raw)
qed

subsection \<open>Cell types\<close>

text \<open>
  Claim C3. Resolving a cell type whose identifier contains the user-defined-NoData
  marker \<open>ud\<close> with \<open>to_numpy_dtype\<close> raises the exception for unsupported user-defined
  NoData, whatever numpy would make of the name and however many \<open>raw\<close> suffixes follow;
  it never returns an element type.
\<close>

theorem to_numpy_dtype_user_defined:
  "py_in ''ud'' (cell_type_name self) \<Longrightarrow> to_numpy_dtype np self = Inl UnsupportedFeature"
proof (induction np self rule: to_numpy_dtype.induct)
  case (1 np self)
  show ?case
  proof (cases "endswith (cell_type_name self) ''raw''")
    case True
    then have "py_in ''ud'' (cell_type_name (GTCellType (drop_last3 (cell_type_name self))))"
      using "1.prems" by (simp add: ud_survives_drop_last3)
    then have "to_numpy_dtype np (GTCellType (drop_last3 (cell_type_name self)))
        = Inl UnsupportedFeature"
      using True "1.IH" by blast
    then show ?thesis
      using True by (subst to_numpy_dtype.simps) simp
  next
    case False
    then show ?thesis
      using "1.prems" by (subst to_numpy_dtype.simps) simp
  qed
qed

theorem to_numpy_dtype_user_defined_witness:
  "py_in ''ud'' (cell_type_name (GTCellType ''int8ud123'')) \<and>
   to_numpy_dtype int_numpy (GTCellType ''int8ud123'') = Inl UnsupportedFeature"
  using to_numpy_dtype_user_defined [of "GTCellType ''int8ud123''" int_numpy]
  by simp


text \<open>
  Claim C5. A cell type equals another cell type exactly when the two identifiers are
  the same string; it equals no object of another type, not even its own identifier as
  a string.
\<close>

theorem GTCellType_eq_iff:
  "(GTCellType_eq a (CellTypeObj b) \<longleftrightarrow> cell_type_name a = cell_type_name b) \<and>
   (type_of other \<noteq> GTCellType_class \<longrightarrow> \<not> GTCellType_eq a other) \<and>
   \<not> GTCellType_eq a (StrObj (cell_type_name a))"
  by (cases other) (auto simp: GTCellType_eq_def)

text \<open>
  At concrete objects: identifiers that differ only in case are different cell types,
  and a cell type is not equal to an integer.
\<close>

theorem GTCellType_eq_iff_witness:
  "GTCellType_eq (GTCellType ''int8'') (CellTypeObj (GTCellType ''int8'')) \<and>
   \<not> GTCellType_eq (GTCellType ''int8'') (CellTypeObj (GTCellType ''INT8'')) \<and>
   type_of (IntObj 8) \<noteq> GTCellType_class \<and>
   \<not> GTCellType_eq (GTCellType ''int8'') (IntObj 8) \<and>
   \<not> GTCellType_eq (GTCellType ''int8'') (StrObj ''int8'')"
  using GTCellType_eq_iff [of "GTCellType ''int8''" "GTCellType ''int8''" "IntObj 8"]
    GTCellType_eq_iff [of "GTCellType ''int8''" "GTCellType ''INT8''" "IntObj 8"]
  by (simp add: GTCellType_eq_def)

lemma to_numpy_dtype_plain:
  "\<not> endswith name ''raw'' \<Longrightarrow> \<not> py_in ''ud'' name \<Longrightarrow>
   to_numpy_dtype np (GTCellType name) = np_dtype np name"
  by (subst to_numpy_dtype.simps) simp

subsection \<open>Tiles\<close>

text \<open>
  Claim C2. For a tile on a buffer of shape \<open>(rows, cols)\<close>, \<open>dimensions()\<close> returns
  \<open>cols\<close> first and \<open>rows\<close> second, the shape in the opposite order; for a buffer of
  3 rows and 5 columns it returns \<open>(5, 3)\<close>.
\<close>

theorem Tile_dimensions_swap:
  "shape (cells self) = [r, c] \<Longrightarrow> Tile_dimensions self = Inr (c, r)"
  by (simp add: Tile_dimensions_def)

theorem Tile_dimensions_swap_witness:
  "shape (cells (Tile_init int_numpy buffer_3x5)) = [3, 5] \<and>
   Tile_dimensions (Tile_init int_numpy buffer_3x5) = Inr (5, 3)"
  using Tile_dimensions_swap [of "Tile_init int_numpy buffer_3x5" 3 5]
  by (simp add: Tile_init_def buffer_3x5_def)

subsection \<open>The integer instance of numpy\<close>

lemma int_cast_in_range: "in_range d v \<Longrightarrow> int_cast d v = v"
  by (cases d) (auto simp: in_range_def int_cast_def)

lemma int_np_dtype_str: "int_np_dtype (int_dtype_str d) = Inr d"
  by (cases d) (simp_all add: int_np_dtype_def int_dtypes_def)

lemma int_dtype_str_plain:
  "\<not> endswith (int_dtype_str d) ''raw'' \<and> \<not> py_in ''ud'' (int_dtype_str d)"
  by (cases d) (simp_all add: endswith_def)

text \<open>
  Every buffer of a fixed-width integer type whose values lie in the range of the type
  has a native element type: the hypothesis of the round trip holds for all of them.
\<close>

lemma int_numpy_native:
  assumes "list_all (in_range (dtype c)) (data c)"
  shows "native_buffer int_numpy c"
proof -
  have "map (int_cast (dtype c)) (data c) = data c"
    using assms by (simp add: list_all_iff int_cast_in_range map_idI)
  then show ?thesis
    by (simp add: native_buffer_def int_numpy_def int_np_dtype_str int_dtype_str_plain)
qed

subsection \<open>The tile codec\<close>

lemma np_reshape_fits: "length vs = r * k \<Longrightarrow> np_reshape vs (int r) (int k) = Inr (r, k)"
  by (simp add: np_reshape_def)

text \<open>What \<open>serialize\<close> returns when the gateway returns the bytes \<open>b\<close>.\<close>

lemma TileUDT_serialize_value:
  assumes "Tile_dimensions tile = Inr (c, r)"
    and "list_to_bytearray gw (flatten_tolist (cells tile)) (int c) (int r) s = (Inr b, s')"
  shows "TileUDT_serialize gw tile s =
           (Inr (PyList [
                   PyList [PyList [PyStr (cell_type_name (cell_type tile))],
                           PyList [PyInt (int c), PyInt (int r)]],
                   PyList [PyBytes b, PyNone]]),
            s')"
  using assms by (simp add: TileUDT_serialize_def bytearray_def)

lemma TileUDT_serialize_is_list:
  assumes "TileUDT_serialize gw tile s = (Inr row, s')"
  shows "\<exists>ctx dat. row = PyList [PyList ctx, PyList dat]"
  using assms
  by (auto simp: TileUDT_serialize_def split: sum.splits prod.splits)

text \<open>
  A list has no attribute \<open>cell_context\<close>, so \<open>deserialize\<close> of a list raises
  \<open>AttributeError\<close> at its first line, before any remote call. A \<open>Row\<close> named by
  \<open>TileUDT.sqlType\<close> has \<open>cell_context\<close>, whose fields are \<open>cell_type\<close> and
  \<open>dimensions\<close>: it has no \<open>cellType\<close>, and \<open>deserialize\<close> raises there.
\<close>

lemma TileUDT_deserialize_list:
  "TileUDT_deserialize np gw (PyList vs) s = (Inl AttributeError, s)"
  by (simp add: TileUDT_deserialize_def)

lemma TileUDT_deserialize_sqlType_row:
  "TileUDT_deserialize np gw (to_row TileUDT_sqlType (PyList [PyList ctx, PyList dat])) s
     = (Inl AttributeError, s)"
proof (cases ctx)
  case Nil
  then show ?thesis
    by (simp add: TileUDT_deserialize_def TileUDT_sqlType_def)
next
  case (Cons x xs)
  then show ?thesis
    by (cases xs) (simp_all add: TileUDT_deserialize_def TileUDT_sqlType_def)
qed

lemma TileUDT_deserialize_of_serialize:
  assumes "TileUDT_serialize gw tile s = (Inr row, s')"
  shows "TileUDT_deserialize np gw row s2 = (Inl AttributeError, s2) \<and>
         TileUDT_deserialize np gw (to_row TileUDT_sqlType row) s2 = (Inl AttributeError, s2)"
proof -
  obtain ctx dat where "row = PyList [PyList ctx, PyList dat]"
    using TileUDT_serialize_is_list [OF assms] by blast
  then show ?thesis
    by (simp only: TileUDT_deserialize_list TileUDT_deserialize_sqlType_row)
qed

text \<open>
  Claim C1 does not hold of the code. For the tile on the 2 by 3 buffer
  \<open>[[1, 2, 3], [4, 5, 6]]\<close> of 16-bit integers, with remote conversions that are
  inverse on these values, \<open>serialize\<close> returns a nested list, and \<open>deserialize\<close> of
  that list raises \<open>AttributeError\<close> without a remote call: it returns no tile. The
  same list read as a \<open>Row\<close> under the names of \<open>TileUDT.sqlType\<close> raises
  \<open>AttributeError\<close> as well, since \<open>deserialize\<close> reads \<open>cellType\<close> where \<open>sqlType\<close>
  says \<open>cell_type\<close>.
\<close>

theorem TileUDT_roundtrip_raises:
  "native_buffer int_numpy buffer_2x3 \<and>
   inverse_on log_gateway (data buffer_2x3) (np_str int_numpy (dtype buffer_2x3)) 3 2 [] [] \<and>
   TileUDT_serialize log_gateway (Tile_init int_numpy buffer_2x3) []
     = (Inr list_2x3, [''_list_to_bytearray'']) \<and>
   TileUDT_deserialize int_numpy log_gateway list_2x3 [''_list_to_bytearray'']
     = (Inl AttributeError, [''_list_to_bytearray'']) \<and>
   TileUDT_deserialize int_numpy log_gateway (to_row TileUDT_sqlType list_2x3)
       [''_list_to_bytearray'']
     = (Inl AttributeError, [''_list_to_bytearray''])"
proof -
  have "native_buffer int_numpy buffer_2x3"
    by (simp add: native_buffer_def int_numpy_def buffer_2x3_def int_np_dtype_def int_dtypes_def
        endswith_def int_cast_def)
  moreover have "inverse_on log_gateway (data buffer_2x3) (np_str int_numpy (dtype buffer_2x3))
      3 2 [] []"
    by (simp add: inverse_on_def log_gateway_def buffer_2x3_def encode16_def bytearray_def)
  moreover have ser: "TileUDT_serialize log_gateway (Tile_init int_numpy buffer_2x3) []
      = (Inr list_2x3, [''_list_to_bytearray''])"
    by (simp add: TileUDT_serialize_def Tile_init_def buffer_2x3_def log_gateway_def
        Tile_dimensions_def flatten_tolist_def bytearray_def encode16_def from_numpy_dtype_def
        int_numpy_def list_2x3_def)
  ultimately show ?thesis
    using TileUDT_deserialize_of_serialize [OF ser] by simp
qed

text \<open>
  What the rest of the code does: when the list that \<open>serialize\<close> returns is read as a
  \<open>Row\<close> under the names that \<open>deserialize\<close> reads, \<open>deserialize\<close> gives the tile
  back. Here \<open>c\<close> is a buffer of \<open>r\<close> rows and \<open>k\<close> columns with a native element type,
  and the two remote conversions are inverse on its values.
\<close>

lemma TileUDT_roundtrip_as_read:
  assumes shp: "shape c = [r, k]"
    and len: "length (data c) = r * k"
    and nat: "native_buffer np c"
    and inv: "inverse_on gw (data c) (np_str np (dtype c)) (int k) (int r) s s2"
  shows "\<exists>row s1. TileUDT_serialize gw (Tile_init np c) s = (Inr row, s1) \<and>
           fst (TileUDT_deserialize np gw (to_row schema_as_read row) s2) = Inr (Tile_init np c)"
proof -
  obtain b s1 where enc: "list_to_bytearray gw (data c) (int k) (int r) s = (Inr b, s1)"
    and dec: "fst (bytearray_to_list gw (PyBytes (bytearray b)) (PyStr (np_str np (dtype c)))
                (PyInt (int k)) (PyInt (int r)) s2) = Inr (data c)"
    using inv by (cases "list_to_bytearray gw (data c) (int k) (int r) s")
      (auto simp: inverse_on_def split: sum.splits)
  let ?row = "PyList [
                PyList [PyList [PyStr (np_str np (dtype c))], PyList [PyInt (int k), PyInt (int r)]],
                PyList [PyBytes b, PyNone]]"
  have dims: "Tile_dimensions (Tile_init np c) = Inr (k, r)"
    using shp by (simp add: Tile_dimensions_def Tile_init_def)
  have "TileUDT_serialize gw (Tile_init np c) s =
      (Inr (PyList [
              PyList [PyList [PyStr (cell_type_name (cell_type (Tile_init np c)))],
                      PyList [PyInt (int k), PyInt (int r)]],
              PyList [PyBytes b, PyNone]]), s1)"
    using enc by (intro TileUDT_serialize_value [OF dims]) (simp add: flatten_tolist_def Tile_init_def)
  then have ser: "TileUDT_serialize gw (Tile_init np c) s = (Inr ?row, s1)"
    by (simp add: Tile_init_def from_numpy_dtype_def)
  obtain s3 where dec':
    "bytearray_to_list gw (PyBytes b) (PyStr (np_str np (dtype c))) (PyInt (int k)) (PyInt (int r)) s2
       = (Inr (data c), s3)"
    using dec
    by (cases "bytearray_to_list gw (PyBytes b) (PyStr (np_str np (dtype c)))
          (PyInt (int k)) (PyInt (int r)) s2")
      (simp add: bytearray_def)
  have dt: "to_numpy_dtype np (GTCellType (np_str np (dtype c))) = Inr (dtype c)"
    using nat by (simp add: native_buffer_def to_numpy_dtype_plain)
  have cast: "np_astype np (dtype c) (data c) = data c"
    using nat by (simp add: native_buffer_def)
  have c: "\<lparr>shape = [r, k], dtype = dtype c, data = data c\<rparr> = c"
    using shp by simp
  have "TileUDT_deserialize np gw (to_row schema_as_read ?row) s2 = (Inr (Tile_init np c), s3)"
    by (simp add: TileUDT_deserialize_def schema_as_read_def dec' np_reshape_fits [OF len] dt
        cast c)
  with ser show ?thesis by simp
qed

text \<open>
  Claim C6. When \<open>dimensions()\<close> gives \<open>(c, r)\<close> and the remote conversion of the
  flattened buffer with \<open>c\<close> and \<open>r\<close> returns the bytes \<open>b\<close>, \<open>serialize\<close> returns the
  list \<open>[[[name], [c, r]], [b, None]]\<close>. Read by the layout of \<open>TileUDT.sqlType\<close>, its
  \<open>cell_data.ref\<close> is \<open>None\<close> and its \<open>cell_data.cells\<close> is \<open>b\<close>; the flattened buffer
  is the buffer's values in row-major order.
\<close>

theorem TileUDT_serialize_cell_data:
  assumes "Tile_dimensions tile = Inr (c, r)"
    and "list_to_bytearray gw (flatten_tolist (cells tile)) (int c) (int r) s = (Inr b, s')"
  shows "\<exists>row. TileUDT_serialize gw tile s = (Inr row, s') \<and>
           row = PyList [
                   PyList [PyList [PyStr (cell_type_name (cell_type tile))],
                           PyList [PyInt (int c), PyInt (int r)]],
                   PyList [PyBytes b, PyNone]] \<and>
           getattr_path (to_row TileUDT_sqlType row) [''cell_data'', ''ref''] = Inr PyNone \<and>
           getattr_path (to_row TileUDT_sqlType row) [''cell_data'', ''cells''] = Inr (PyBytes b) \<and>
           flatten_tolist (cells tile) = data (cells tile)"
  using TileUDT_serialize_value [OF assms]
  by (simp add: TileUDT_sqlType_def flatten_tolist_def)

theorem TileUDT_serialize_cell_data_witness:
  "Tile_dimensions (Tile_init int_numpy buffer_2x3) = Inr (3, 2) \<and>
   list_to_bytearray log_gateway (flatten_tolist (cells (Tile_init int_numpy buffer_2x3))) 3 2 []
     = (Inr [0, 1, 0, 2, 0, 3, 0, 4, 0, 5, 0, 6], [''_list_to_bytearray'']) \<and>
   TileUDT_serialize log_gateway (Tile_init int_numpy buffer_2x3) []
     = (Inr list_2x3, [''_list_to_bytearray'']) \<and>
   getattr_path (to_row TileUDT_sqlType list_2x3) [''cell_data'', ''ref''] = Inr PyNone \<and>
   getattr_path (to_row TileUDT_sqlType list_2x3) [''cell_data'', ''cells'']
     = Inr (PyBytes [0, 1, 0, 2, 0, 3, 0, 4, 0, 5, 0, 6])"
proof -
  have 1: "Tile_dimensions (Tile_init int_numpy buffer_2x3) = Inr (3, 2)"
    by (simp add: Tile_dimensions_def Tile_init_def buffer_2x3_def)
  have 2: "list_to_bytearray log_gateway (flatten_tolist (cells (Tile_init int_numpy buffer_2x3)))
      (int 3) (int 2) [] = (Inr [0, 1, 0, 2, 0, 3, 0, 4, 0, 5, 0, 6], [''_list_to_bytearray''])"
    by (simp add: log_gateway_def flatten_tolist_def Tile_init_def buffer_2x3_def encode16_def)
  have 3: "PyList [
             PyList [PyList [PyStr (cell_type_name (cell_type (Tile_init int_numpy buffer_2x3)))],
                     PyList [PyInt (int 3), PyInt (int 2)]],
             PyList [PyBytes [0, 1, 0, 2, 0, 3, 0, 4, 0, 5, 0, 6], PyNone]] = list_2x3"
    by (simp add: list_2x3_def Tile_init_def buffer_2x3_def from_numpy_dtype_def int_numpy_def)
  show ?thesis
    using 1 2 TileUDT_serialize_cell_data [OF 1 2] unfolding 3 by auto
qed

text \<open>
  Claim C9. When the gateway call of \<open>serialize\<close> or of \<open>deserialize\<close> raises \<open>e\<close> and
  leaves the engine in state \<open>s'\<close>, the method raises that same \<open>e\<close> and the engine is
  in state \<open>s'\<close>: the call is made once, its exception is not caught, and the caller
  gets no record and no tile. \<open>serialize\<close> reaches its call when \<open>dimensions()\<close> has
  returned, \<open>deserialize\<close> when it has read its four attributes of the datum.
\<close>

theorem gateway_failure_propagates:
  "(Tile_dimensions tile = Inr (c, r) \<and>
      list_to_bytearray gw (flatten_tolist (cells tile)) (int c) (int r) s = (Inl e, s')
      \<longrightarrow> TileUDT_serialize gw tile s = (Inl e, s')) \<and>
   (getattr_path datum [''cell_context'', ''cellType'', ''cellTypeName''] = Inr name \<and>
      getattr_path datum [''cell_context'', ''dimensions'', ''cols''] = Inr cols \<and>
      getattr_path datum [''cell_context'', ''dimensions'', ''rows''] = Inr rows \<and>
      getattr_path datum [''cell_data'', ''cells''] = Inr cell_data_bytes \<and>
      bytearray_to_list gw cell_data_bytes name cols rows s = (Inl e, s')
      \<longrightarrow> TileUDT_deserialize np gw datum s = (Inl e, s'))"
  by (simp add: TileUDT_serialize_def TileUDT_deserialize_def)

theorem gateway_failure_propagates_witness:
  "Tile_dimensions (Tile_init int_numpy buffer_2x3) = Inr (3, 2) \<and>
   list_to_bytearray down_gateway (flatten_tolist (cells (Tile_init int_numpy buffer_2x3))) 3 2 []
     = (Inl (RemoteCallError ''connection lost''), [''_list_to_bytearray'']) \<and>
   TileUDT_serialize down_gateway (Tile_init int_numpy buffer_2x3) []
     = (Inl (RemoteCallError ''connection lost''), [''_list_to_bytearray'']) \<and>
   getattr_path row_2x3 [''cell_context'', ''cellType'', ''cellTypeName''] = Inr (PyStr ''int16'') \<and>
   getattr_path row_2x3 [''cell_context'', ''dimensions'', ''cols''] = Inr (PyInt 3) \<and>
   getattr_path row_2x3 [''cell_context'', ''dimensions'', ''rows''] = Inr (PyInt 2) \<and>
   getattr_path row_2x3 [''cell_data'', ''cells'']
     = Inr (PyBytes [0, 1, 0, 2, 0, 3, 0, 4, 0, 5, 0, 6]) \<and>
   bytearray_to_list down_gateway (PyBytes [0, 1, 0, 2, 0, 3, 0, 4, 0, 5, 0, 6])
       (PyStr ''int16'') (PyInt 3) (PyInt 2) []
     = (Inl (RemoteCallError ''connection lost''), [''_bytearray_to_list'']) \<and>
   TileUDT_deserialize int_numpy down_gateway row_2x3 []
     = (Inl (RemoteCallError ''connection lost''), [''_bytearray_to_list''])"
  using gateway_failure_propagates [where tile = "Tile_init int_numpy buffer_2x3"
      and c = 3 and r = 2 and gw = down_gateway and s = "[]"
      and e = "RemoteCallError ''connection lost''"
      and s' = "[''_list_to_bytearray'']" and datum = row_2x3 and np = int_numpy
      and name = "PyStr ''int16''" and cols = "PyInt 3" and rows = "PyInt 2"
      and cell_data_bytes = "PyBytes [0, 1, 0, 2, 0, 3, 0, 4, 0, 5, 0, 6]"]
    gateway_failure_propagates [where tile = "Tile_init int_numpy buffer_2x3"
      and c = 3 and r = 2 and gw = down_gateway and s = "[]"
      and e = "RemoteCallError ''connection lost''"
      and s' = "[''_bytearray_to_list'']" and datum = row_2x3 and np = int_numpy
      and name = "PyStr ''int16''" and cols = "PyInt 3" and rows = "PyInt 2"
      and cell_data_bytes = "PyBytes [0, 1, 0, 2, 0, 3, 0, 4, 0, 5, 0, 6]"]
  by (simp add: Tile_dimensions_def Tile_init_def buffer_2x3_def down_gateway_def row_2x3_def
      list_2x3_def schema_as_read_def)

subsection \<open>The remote-source codec\<close>

text \<open>
  Claim C10. \<open>RasterSourceUDT.deserialize\<close> returns \<open>None\<close> for every datum and
  \<open>RasterSourceUDT.serialize\<close> returns \<open>None\<close> for every object: neither produces a
  value that could be used.
\<close>

theorem RasterSourceUDT_unimplemented:
  "RasterSourceUDT_deserialize datum = None \<and> RasterSourceUDT_serialize obj = None"
  by (simp add: RasterSourceUDT_deserialize_def RasterSourceUDT_serialize_def)

subsection \<open>The frame\<close>

text \<open>
  Claim C8. When the engine returns no temporal key column for the frame,
  \<open>temporalKeyColumn\<close> returns \<open>None\<close> and raises nothing; when the engine returns the
  handle of a column, it returns that handle wrapped as a \<open>Column\<close>.
\<close>

theorem temporalKeyColumn_optional:
  "(jvm_temporalKeyColumn (jrfctx self) (jdf self) s = (Inr None, s')
      \<longrightarrow> temporalKeyColumn p self s = (Inr None, s')) \<and>
   (jvm_temporalKeyColumn (jrfctx self) (jdf self) s = (Inr (Some col), s')
      \<longrightarrow> temporalKeyColumn p self s = (Inr (Some (Column col)), s'))"
  by (simp add: temporalKeyColumn_def and_then_def)

theorem temporalKeyColumn_optional_witness:
  "jvm_temporalKeyColumn (jrfctx frame1) (jdf frame1) [] = (Inr None, [''temporalKeyColumn'']) \<and>
   temporalKeyColumn no_context frame1 [] = (Inr None, [''temporalKeyColumn'']) \<and>
   jvm_temporalKeyColumn (jrfctx frame2) (jdf frame2) []
     = (Inr (Some 6), [''temporalKeyColumn'']) \<and>
   temporalKeyColumn no_context frame2 [] = (Inr (Some (Column 6)), [''temporalKeyColumn''])"
  using temporalKeyColumn_optional [where self = frame1 and s = "[]"
      and s' = "[''temporalKeyColumn'']" and p = no_context and col = 0]
    temporalKeyColumn_optional [where self = frame2 and s = "[]"
      and s' = "[''temporalKeyColumn'']" and p = no_context and col = 6]
  by (simp add: frame1_def frame2_def log_jrfctx_def)

text \<open>
  Claim C7, as stated, fails: in a process with no bound engine context,
  \<open>tileColumns\<close> on a frame raises nothing. It calls the engine context that the frame
  holds since its construction (the call is in the engine's log) and returns the
  columns.
\<close>

theorem tileColumns_without_context_counterexample:
  "active_rf_context no_context = Inl NoActiveContext \<and>
   tileColumns no_context frame1 [] = (Inr [Column 2, Column 3], [''tileColumns''])"
  by (simp add: active_rf_context_def no_context_def tileColumns_def and_then_def frame1_def
      log_jrfctx_def)

text \<open>
  Claim C7, amended. When no engine context is bound to the process, the lookup of the
  context raises \<open>AttributeError\<close>, and each of \<open>spatialJoin\<close>, \<open>withBounds\<close>,
  \<open>withCenter\<close>, \<open>withCenterLatLng\<close> and \<open>withSpatialIndex\<close> raises it with the engine
  left in the state it was in: no remote call is made. The other six accessors do not
  look the process's context up: their result is the same in every process.
\<close>

theorem accessors_without_context:
  "(active_rf_context p = Inl e \<longrightarrow>
      e = NoActiveContext \<and>
      spatialJoin p self other_df s = (Inl NoActiveContext, s) \<and>
      withBounds p self s = (Inl NoActiveContext, s) \<and>
      withCenter p self s = (Inl NoActiveContext, s) \<and>
      withCenterLatLng p self s = (Inl NoActiveContext, s) \<and>
      withSpatialIndex p self s = (Inl NoActiveContext, s)) \<and>
   tileColumns p self s = tileColumns p' self s \<and>
   spatialKeyColumn p self s = spatialKeyColumn p' self s \<and>
   temporalKeyColumn p self s = temporalKeyColumn p' self s \<and>
   tileLayerMetadata loads p self s = tileLayerMetadata loads p' self s \<and>
   toIntRaster p self colname c r s = toIntRaster p' self colname c r s \<and>
   toDoubleRaster p self colname c r s = toDoubleRaster p' self colname c r s"
  by (auto simp: spatialJoin_def withBounds_def withCenter_def withCenterLatLng_def
      withSpatialIndex_def tileColumns_def spatialKeyColumn_def temporalKeyColumn_def
      tileLayerMetadata_def toIntRaster_def toDoubleRaster_def active_rf_context_def
      split: option.splits)

theorem accessors_without_context_witness:
  "active_rf_context no_context = Inl NoActiveContext \<and>
   spatialJoin no_context frame1 frame2 [] = (Inl NoActiveContext, []) \<and>
   withBounds no_context frame1 [] = (Inl NoActiveContext, []) \<and>
   withCenter no_context frame1 [] = (Inl NoActiveContext, []) \<and>
   withCenterLatLng no_context frame1 [] = (Inl NoActiveContext, []) \<and>
   withSpatialIndex no_context frame1 [] = (Inl NoActiveContext, [])"
  using accessors_without_context [where p = no_context and e = NoActiveContext
      and self = frame1 and other_df = frame2 and s = "[]" and p' = no_context
      and loads = "Inr :: string \<Rightarrow> error + string" and colname = "''tile''" and c = 3 and r = 2]
  by (simp add: active_rf_context_def no_context_def)

end
